theory Spec2Isabelle
  imports Main "HOL-Library.Sublist"
begin

section \<open>Python values and the primitives the script applies to them\<close>

text \<open>
  The script keeps whatever \<^verbatim>\<open>json.loads\<close> returns, with no conversion, so the
  values it handles are the Python values a JSON decoder produces: \<^verbatim>\<open>None\<close>,
  \<^verbatim>\<open>bool\<close>, \<^verbatim>\<open>int\<close>, \<^verbatim>\<open>float\<close>, \<^verbatim>\<open>str\<close>, \<^verbatim>\<open>list\<close> and \<^verbatim>\<open>dict\<close>
  (whose keys are always \<^verbatim>\<open>str\<close>). A dict is an association list in insertion
  order; the decoder never produces a repeated key. A \<^verbatim>\<open>str\<close> is a list of
  characters, one \<open>char\<close> standing for one code point.
\<close>

datatype pyfloat = Float_finite bool nat int | Float_inf bool | Float_nan

datatype pyval =
    PyNone
  | PyBool bool
  | PyInt int
  | PyFloat pyfloat
  | PyStr string
  | PyList "pyval list"
  | PyDict "(string \<times> pyval) list"

text \<open>
  The exceptions of the script's own operations, and \<open>LibraryError\<close> with its name for
  what a document library raises. \<^verbatim>\<open>JSONDecodeError\<close> is the one exception of
  \<^verbatim>\<open>json.loads\<close> that \<^verbatim>\<open>generate_quiz\<close> catches; the decoder also raises
  \<^verbatim>\<open>RecursionError\<close> (on deep nesting) and a plain \<^verbatim>\<open>ValueError\<close> (on an integer
  of too many digits), which nothing catches.
\<close>

datatype py_error =
    KeyError
  | TypeError
  | IndexError
  | AttributeError
  | JSONDecodeError
  | RecursionError
  | ValueError
  | LibraryError string

text \<open>Truth value testing, as \<^verbatim>\<open>if response:\<close> and \<^verbatim>\<open>a or b\<close> apply it.\<close>

fun truthy :: "pyval \<Rightarrow> bool" where
  "truthy PyNone = False"
| "truthy (PyBool b) = b"
| "truthy (PyInt i) = (i \<noteq> 0)"
| "truthy (PyFloat (Float_finite s m e)) = (m \<noteq> 0)"
| "truthy (PyFloat (Float_inf s)) = True"
| "truthy (PyFloat Float_nan) = True"
| "truthy (PyStr s) = (s \<noteq> [])"
| "truthy (PyList xs) = (xs \<noteq> [])"
| "truthy (PyDict kvs) = (kvs \<noteq> [])"

text \<open>
  Indexing a sequence of length \<open>n\<close> with an \<^verbatim>\<open>int\<close>: a negative index counts from
  the end, anything out of range raises \<^verbatim>\<open>IndexError\<close>.
\<close>

definition seq_index :: "'a list \<Rightarrow> int \<Rightarrow> py_error + 'a" where
  "seq_index xs i =
     (if 0 \<le> i \<and> i < int (length xs) then Inr (xs ! nat i)
      else if i < 0 \<and> - int (length xs) \<le> i then Inr (xs ! nat (int (length xs) + i))
      else Inl IndexError)"

text \<open>
  The subscript \<^verbatim>\<open>container[key]\<close>. A dict decoded from JSON has only \<^verbatim>\<open>str\<close>
  keys, so any other hashable key is missing (\<^verbatim>\<open>KeyError\<close>) and a list or dict
  used as key is unhashable (\<^verbatim>\<open>TypeError\<close>). Lists and strings take \<^verbatim>\<open>int\<close>
  indices (a \<^verbatim>\<open>bool\<close> is an \<^verbatim>\<open>int\<close>); the other values are not subscriptable.
\<close>

fun py_getitem :: "pyval \<Rightarrow> pyval \<Rightarrow> py_error + pyval" where
  "py_getitem (PyDict kvs) (PyStr k) =
     (case map_of kvs k of None \<Rightarrow> Inl KeyError | Some v \<Rightarrow> Inr v)"
| "py_getitem (PyDict kvs) (PyList xs) = Inl TypeError"
| "py_getitem (PyDict kvs) (PyDict ys) = Inl TypeError"
| "py_getitem (PyDict kvs) k = Inl KeyError"
| "py_getitem (PyList xs) (PyInt i) = seq_index xs i"
| "py_getitem (PyList xs) (PyBool b) = seq_index xs (if b then 1 else 0)"
| "py_getitem (PyList xs) k = Inl TypeError"
| "py_getitem (PyStr s) (PyInt i) =
     (case seq_index s i of Inl e \<Rightarrow> Inl e | Inr c \<Rightarrow> Inr (PyStr [c]))"
| "py_getitem (PyStr s) (PyBool b) =
     (case seq_index s (if b then 1 else 0) of Inl e \<Rightarrow> Inl e | Inr c \<Rightarrow> Inr (PyStr [c]))"
| "py_getitem (PyStr s) k = Inl TypeError"
| "py_getitem v k = Inl TypeError"

text \<open>Iteration, as \<^verbatim>\<open>enumerate(...)\<close> drives it, and \<^verbatim>\<open>len\<close>.\<close>

fun py_iter :: "pyval \<Rightarrow> py_error + pyval list" where
  "py_iter (PyList xs) = Inr xs"
| "py_iter (PyStr s) = Inr (map (\<lambda>c. PyStr [c]) s)"
| "py_iter (PyDict kvs) = Inr (map (\<lambda>kv. PyStr (fst kv)) kvs)"
| "py_iter v = Inl TypeError"

fun py_len :: "pyval \<Rightarrow> py_error + nat" where
  "py_len (PyList xs) = Inr (length xs)"
| "py_len (PyStr s) = Inr (length s)"
| "py_len (PyDict kvs) = Inr (length kvs)"
| "py_len v = Inl TypeError"

text \<open>\<^verbatim>\<open>list(d.keys())\<close>: only a dict has the method.\<close>

fun py_keys :: "pyval \<Rightarrow> py_error + string list" where
  "py_keys (PyDict kvs) = Inr (map fst kvs)"
| "py_keys v = Inl AttributeError"

text \<open>\<^verbatim>\<open>str(n)\<close> for an \<^verbatim>\<open>int\<close>, which the f-strings apply to numbers.\<close>

definition digit_char :: "nat \<Rightarrow> char" where
  "digit_char d = char_of (48 + d)"

fun str_nat :: "nat \<Rightarrow> string" where
  "str_nat n = (if n < 10 then [digit_char n] else str_nat (n div 10) @ [digit_char (n mod 10)])"

declare str_nat.simps [simp del]

definition str_int :: "int \<Rightarrow> string" where
  "str_int i = (if i < 0 then CHR ''-'' # str_nat (nat (- i)) else str_nat (nat i))"

section \<open>The external collaborators\<close>

text \<open>
  The libraries the script calls are parameters of the model. \<open>json_loads\<close> is
  \<^verbatim>\<open>json.loads\<close> on a \<^verbatim>\<open>str\<close>: the value decoded (\<^verbatim>\<open>NaN\<close> and
  \<^verbatim>\<open>Infinity\<close> are decoded to floats) or the exception raised;
  \<open>requests_post\<close> is \<^verbatim>\<open>requests.post(url, json=data)\<close>, which raises a
  \<^verbatim>\<open>RequestException\<close> or returns a response with a status code and a text.
  \<open>st_radio i options\<close> is the value of the radio widget with key \<^verbatim>\<open>q{i}\<close>: the
  option selected, or \<^verbatim>\<open>None\<close>. \<open>temp_prefix\<close> is the path
  \<^verbatim>\<open>NamedTemporaryFile\<close> picks, before the suffix. \<open>pptx_resave\<close> is
  \<^verbatim>\<open>Presentation(path)\<close> followed by \<^verbatim>\<open>save\<close>, from the bytes read to the bytes
  written; \<open>docx2pdf_convert\<close> is \<^verbatim>\<open>docx2pdf.convert\<close>, likewise;
  \<open>pdf_page_texts\<close> is \<^verbatim>\<open>PyPDF2.PdfReader\<close> with \<^verbatim>\<open>extract_text\<close> on each page, in
  page order. Each of the three may raise. \<open>st_file_uploader types offered\<close> is the
  upload widget of line 121, which is given the list of allowed extensions: the file it
  hands to the script when the user offers \<open>offered\<close>, or \<^verbatim>\<open>None\<close> when it refuses
  the file.
\<close>

text \<open>
  The uploaded file (\<^verbatim>\<open>name\<close>, \<^verbatim>\<open>type\<close>, \<^verbatim>\<open>getvalue()\<close>) and the file system,
  from paths to contents.
\<close>

record uploaded_file =
  file_name :: string
  file_type :: string
  file_value :: string


record request_data =
  model :: string
  prompt :: string
  stream :: bool

datatype http_reply = RequestException string | Response int string

record env =
  json_loads :: "string \<Rightarrow> py_error + pyval"
  requests_post :: "string \<Rightarrow> request_data \<Rightarrow> http_reply"
  st_radio :: "nat \<Rightarrow> string list \<Rightarrow> string option"
  temp_prefix :: string
  pptx_resave :: "string \<Rightarrow> py_error + string"
  docx2pdf_convert :: "string \<Rightarrow> py_error + string"
  pdf_page_texts :: "string \<Rightarrow> py_error + string list"
  st_file_uploader :: "string list \<Rightarrow> uploaded_file \<Rightarrow> uploaded_file option"

text \<open>What the script shows to the user, one constructor for each message of the source.\<close>

datatype ui_event =
    Api_error int string
  | Connection_error string
  | Decode_failed
  | Quiz_failed
  | Summary_failed
  | Question_shown nat pyval
  | Answer_correct nat
  | Answer_incorrect nat pyval pyval
  | Score_line nat nat
  | File_processed

section \<open>The inference client\<close>

definition ollama_url :: string where
  "ollama_url = ''http://localhost:11434/api/generate''"

definition ollama_data :: "string \<Rightarrow> string \<Rightarrow> request_data" where
  "ollama_data context task =
     \<lparr>model = ''llama3.1'',
      prompt = ''Context: '' @ context @ ''\<newline>\<newline>Task: '' @ task @ ''\<newline>\<newline>Response:'',
      stream = False\<rparr>"

text \<open>
  \<^verbatim>\<open>query_ollama\<close>, lines 47 to 63. Only \<^verbatim>\<open>RequestException\<close> is caught: what
  \<^verbatim>\<open>json.loads\<close> and the subscript raise leaves the function.
\<close>

definition query_ollama :: "env \<Rightarrow> string \<Rightarrow> string \<Rightarrow> py_error + (ui_event list \<times> pyval)" where
  "query_ollama env context task =
     (case requests_post env ollama_url (ollama_data context task) of
        RequestException e \<Rightarrow> Inr ([Connection_error e], PyNone)
      | Response status_code text \<Rightarrow>
          if status_code = 200 then
            (case json_loads env text of
               Inl e \<Rightarrow> Inl e
             | Inr body \<Rightarrow>
                 (case py_getitem body (PyStr ''response'') of
                    Inl e \<Rightarrow> Inl e
                  | Inr r \<Rightarrow> Inr ([], r)))
          else Inr ([Api_error status_code text], PyNone))"

section \<open>The prompt builders and the generators\<close>

definition quiz_task :: "string \<Rightarrow> int \<Rightarrow> string" where
  \<open>quiz_task context num_questions =
     ''Generate a quiz with '' @ str_int num_questions @
     '' multiple-choice questions based on the given context: "'' @ context @ ''". \<newline>'' @
     ''    For each question, provide 4 options (A, B, C, D) and indicate the correct answer.\<newline>'' @
     ''    Ensure the questions are relevant to the topic: '' @ context @
     ''. Also if the questions is for learning a language or grammar \<newline>'' @
     ''    like 'take a quiz on present tense' or any other tense I expect you to prepare questions and options like this\<newline>'' @
     ''    Do not include meta-level questions like 'What is the purpose of this quiz?'\<newline>'' @
     ''    Format the output as a JSON string with the following structure:\<newline>'' @
     ''    {\<newline>'' @
     ''        "questions": [\<newline>'' @
     ''            {\<newline>'' @
     ''                "question": "Question text here",\<newline>'' @
     ''                "options": {\<newline>'' @
     ''                    "A": "Option A text",\<newline>'' @
     ''                    "B": "Option B text",\<newline>'' @
     ''                    "C": "Option C text",\<newline>'' @
     ''                    "D": "Option D text"\<newline>'' @
     ''                },\<newline>'' @
     ''                "correct_answer": "Correct option letter"\<newline>'' @
     ''            },\<newline>'' @
     ''            ...\<newline>'' @
     ''        ]\<newline>'' @
     ''    }\<newline>'' @
     ''    ''\<close>

text \<open>
  \<^verbatim>\<open>json.loads(response)\<close> in \<^verbatim>\<open>generate_quiz\<close>: the argument is whatever the
  reply's \<^verbatim>\<open>response\<close> field held, and a value that is not a \<^verbatim>\<open>str\<close> raises
  \<^verbatim>\<open>TypeError\<close>.
\<close>

definition loads_value :: "env \<Rightarrow> pyval \<Rightarrow> py_error + pyval" where
  "loads_value env v = (case v of PyStr s \<Rightarrow> json_loads env s | _ \<Rightarrow> Inl TypeError)"

text \<open>
  Lines 92 to 101 of \<^verbatim>\<open>generate_quiz\<close>: what is done with the inference client's
  answer. Only \<^verbatim>\<open>JSONDecodeError\<close> is caught; any other exception of the decoder
  leaves the function.
\<close>

definition parse_response :: "env \<Rightarrow> pyval \<Rightarrow> py_error + (ui_event list \<times> pyval)" where
  "parse_response env response =
     (if truthy response then
        (case loads_value env response of
           Inr quiz \<Rightarrow> Inr ([], quiz)
         | Inl JSONDecodeError \<Rightarrow> Inr ([Decode_failed], PyNone)
         | Inl e \<Rightarrow> Inl e)
      else Inr ([Quiz_failed], PyNone))"

definition generate_quiz :: "env \<Rightarrow> string \<Rightarrow> int \<Rightarrow> py_error + (ui_event list \<times> pyval)" where
  "generate_quiz env context num_questions =
     (case query_ollama env context (quiz_task context num_questions) of
        Inl e \<Rightarrow> Inl e
      | Inr (shown, response) \<Rightarrow>
          (case parse_response env response of
             Inl e \<Rightarrow> Inl e
           | Inr (shown', quiz) \<Rightarrow> Inr (shown @ shown', quiz)))"

definition summary_task :: "string \<Rightarrow> string" where
  \<open>summary_task context =
     ''Summarize the following content: "'' @ context @ ''". \<newline>'' @
     ''    Provide a concise summary that captures the main points and key information.\<newline>'' @
     ''    ''\<close>

definition summarize_content :: "env \<Rightarrow> string \<Rightarrow> py_error + (ui_event list \<times> pyval)" where
  "summarize_content env context =
     (case query_ollama env context (summary_task context) of
        Inl e \<Rightarrow> Inl e
      | Inr (shown, response) \<Rightarrow>
          if truthy response then Inr (shown, response)
          else Inr (shown @ [Summary_failed], PyNone))"

section \<open>The session and its handlers\<close>

text \<open>
  \<^verbatim>\<open>st.session_state\<close>. \<open>quiz\<close> and \<open>summary\<close> hold what the generators returned,
  \<open>PyNone\<close> for \<^verbatim>\<open>None\<close>. The values of \<open>user_answers\<close> are what the radio widget
  returned: a key of a dict, or \<^verbatim>\<open>None\<close>.
\<close>

record session =
  pdf_text :: string
  quiz :: pyval
  user_answers :: "nat \<rightharpoonup> string option"
  custom_prompt :: string
  summary :: pyval


datatype content_type = Quiz | Summary

text \<open>
  Line 149: \<^verbatim>\<open>st.session_state.custom_prompt or st.session_state.pdf_text\<close>, on two
  strings.
\<close>

definition active_context :: "session \<Rightarrow> string" where
  "active_context s = (if custom_prompt s \<noteq> [] then custom_prompt s else pdf_text s)"

text \<open>
  Lines 142 to 154, a click on Generate. The button is drawn only under the condition
  of line 142, so without it nothing runs. An exception leaves the handler before the
  assignments of lines 151 and 152.
\<close>

definition generate_clicked ::
  "env \<Rightarrow> content_type \<Rightarrow> int \<Rightarrow> session \<Rightarrow> py_error + (ui_event list \<times> session)" where
  "generate_clicked env content_type num_questions s =
     (if pdf_text s \<noteq> [] \<or> custom_prompt s \<noteq> [] then
        (let context = active_context s in
         case content_type of
           Quiz \<Rightarrow>
             (case generate_quiz env context num_questions of
                Inl e \<Rightarrow> Inl e
              | Inr (shown, q) \<Rightarrow> Inr (shown, s\<lparr>quiz := q, user_answers := Map.empty\<rparr>))
         | Summary \<Rightarrow>
             (case summarize_content env context of
                Inl e \<Rightarrow> Inl e
              | Inr (shown, r) \<Rightarrow> Inr (shown, s\<lparr>summary := r\<rparr>)))
      else Inr ([], s))"

text \<open>
  The session a script run leaves behind: the one it returned, or, when it raised, the
  one it started from (the handlers assign after their last call that can raise).
\<close>

definition session_after :: "session \<Rightarrow> py_error + (ui_event list \<times> session) \<Rightarrow> session" where
  "session_after s r = (case r of Inl e \<Rightarrow> s | Inr (shown, s') \<Rightarrow> s')"

text \<open>
  Lines 157 to 163: the questions are drawn and the current selection of every radio
  widget is stored in the answer sheet.
\<close>

fun render_loop ::
  "env \<Rightarrow> nat \<Rightarrow> pyval list \<Rightarrow> (nat \<rightharpoonup> string option) \<Rightarrow> ui_event list \<Rightarrow>
     py_error + (ui_event list \<times> (nat \<rightharpoonup> string option))" where
  "render_loop env i [] sheet shown = Inr (shown, sheet)"
| "render_loop env i (q # qs) sheet shown =
     (case py_getitem q (PyStr ''question'') of
        Inl e \<Rightarrow> Inl e
      | Inr text \<Rightarrow>
          (case py_getitem q (PyStr ''options'') of
             Inl e \<Rightarrow> Inl e
           | Inr opts \<Rightarrow>
               (case py_keys opts of
                  Inl e \<Rightarrow> Inl e
                | Inr labels \<Rightarrow>
                    render_loop env (i + 1) qs (sheet(i \<mapsto> st_radio env i labels))
                      (shown @ [Question_shown (i + 1) text]))))"

definition render_quiz :: "env \<Rightarrow> session \<Rightarrow> py_error + (ui_event list \<times> session)" where
  "render_quiz env s =
     (if truthy (quiz s) then
        (case py_getitem (quiz s) (PyStr ''questions'') of
           Inl e \<Rightarrow> Inl e
         | Inr questions \<Rightarrow>
             (case py_iter questions of
                Inl e \<Rightarrow> Inl e
              | Inr qs \<Rightarrow>
                  (case render_loop env 0 qs (user_answers s) [] of
                     Inl e \<Rightarrow> Inl e
                   | Inr (shown, sheet) \<Rightarrow> Inr (shown, s\<lparr>user_answers := sheet\<rparr>))))
      else Inr ([], s))"

text \<open>\<^verbatim>\<open>st.session_state.user_answers.get(i)\<close>, as a Python value.\<close>

definition sheet_get :: "(nat \<rightharpoonup> string option) \<Rightarrow> nat \<Rightarrow> pyval" where
  "sheet_get sheet i =
     (case sheet i of None \<Rightarrow> PyNone | Some None \<Rightarrow> PyNone | Some (Some label) \<Rightarrow> PyStr label)"

text \<open>
  Lines 166 to 174, the loop of Check Answers. \<^verbatim>\<open>user_answer\<close> is \<^verbatim>\<open>None\<close> or a
  \<^verbatim>\<open>str\<close>, and such a value is \<^verbatim>\<open>==\<close> to another exactly when the two are the
  same value.
\<close>

fun check_loop ::
  "(nat \<rightharpoonup> string option) \<Rightarrow> nat \<Rightarrow> pyval list \<Rightarrow> nat \<Rightarrow> ui_event list \<Rightarrow>
     py_error + (ui_event list \<times> nat)" where
  "check_loop sheet i [] score shown = Inr (shown, score)"
| "check_loop sheet i (q # qs) score shown =
     (let user_answer = sheet_get sheet i in
      case py_getitem q (PyStr ''correct_answer'') of
        Inl e \<Rightarrow> Inl e
      | Inr correct_answer \<Rightarrow>
          if user_answer = correct_answer then
            check_loop sheet (i + 1) qs (score + 1) (shown @ [Answer_correct (i + 1)])
          else
            (case py_getitem q (PyStr ''options'') of
               Inl e \<Rightarrow> Inl e
             | Inr opts \<Rightarrow>
                 (case py_getitem opts correct_answer of
                    Inl e \<Rightarrow> Inl e
                  | Inr text \<Rightarrow>
                      check_loop sheet (i + 1) qs score
                        (shown @ [Answer_incorrect (i + 1) correct_answer text]))))"

text \<open>
  Lines 166 to 175: the score and the total, with what was shown. The total is
  \<^verbatim>\<open>len(st.session_state.quiz['questions'])\<close>.
\<close>

definition check_answers ::
  "pyval \<Rightarrow> (nat \<rightharpoonup> string option) \<Rightarrow> py_error + (ui_event list \<times> nat \<times> nat)" where
  "check_answers quiz_value sheet =
     (case py_getitem quiz_value (PyStr ''questions'') of
        Inl e \<Rightarrow> Inl e
      | Inr questions \<Rightarrow>
          (case py_iter questions of
             Inl e \<Rightarrow> Inl e
           | Inr qs \<Rightarrow>
               (case check_loop sheet 0 qs 0 [] of
                  Inl e \<Rightarrow> Inl e
                | Inr (shown, score) \<Rightarrow>
                    (case py_len questions of
                       Inl e \<Rightarrow> Inl e
                     | Inr len \<Rightarrow> Inr (shown @ [Score_line score len], score, len)))))"

text \<open>
  A click on Check Answers: the script first draws the quiz (lines 156 to 163), then
  runs lines 165 to 175 on the sheet the drawing left.
\<close>

definition check_clicked :: "env \<Rightarrow> session \<Rightarrow> py_error + (ui_event list \<times> session)" where
  "check_clicked env s =
     (if pdf_text s \<noteq> [] \<or> custom_prompt s \<noteq> [] then
        (if truthy (quiz s) then
           (case render_quiz env s of
              Inl e \<Rightarrow> Inl e
            | Inr (shown, s') \<Rightarrow>
                (case check_answers (quiz s') (user_answers s') of
                   Inl e \<Rightarrow> Inl e
                 | Inr (shown', score, len) \<Rightarrow> Inr (shown @ shown', s')))
         else Inr ([], s))
      else Inr ([], s))"

section \<open>Text extraction\<close>



definition lower_char :: "char \<Rightarrow> char" where
  "lower_char c =
     (let n = (of_char c :: nat)
      in if (65 \<le> n \<and> n \<le> 90) \<or> (192 \<le> n \<and> n \<le> 222 \<and> n \<noteq> 215) then char_of (n + 32)
         else c)"

definition lower :: "string \<Rightarrow> string" where
  "lower s = map lower_char s"






section \<open>The quiz as the specification describes it\<close>

text \<open>
  The script has no type for a quiz: it uses the decoded value as it is. The
  predicates below say, on such a value, what the specification's data model says of a
  Quiz. \<open>quiz_questions\<close> reads the sequence of questions of a dict whose
  \<^verbatim>\<open>questions\<close> field is a list, \<open>options_of\<close> the options mapping of a question.
\<close>

definition quiz_questions :: "pyval \<Rightarrow> pyval list option" where
  "quiz_questions quiz_value =
     (case quiz_value of
        PyDict kvs \<Rightarrow> (case map_of kvs ''questions'' of Some (PyList qs) \<Rightarrow> Some qs | _ \<Rightarrow> None)
      | _ \<Rightarrow> None)"

definition options_of :: "pyval \<Rightarrow> (string \<times> pyval) list option" where
  "options_of q =
     (case q of
        PyDict kvs \<Rightarrow> (case map_of kvs ''options'' of Some (PyDict opts) \<Rightarrow> Some opts | _ \<Rightarrow> None)
      | _ \<Rightarrow> None)"

definition has_options_mapping :: "pyval \<Rightarrow> bool" where
  "has_options_mapping q = (options_of q \<noteq> None)"

text \<open>The question's \<^verbatim>\<open>correct_answer\<close> is a key of its options mapping.\<close>

definition answer_is_option_key :: "pyval \<Rightarrow> bool" where
  "answer_is_option_key q =
     (case options_of q of
        None \<Rightarrow> False
      | Some opts \<Rightarrow>
          (case py_getitem q (PyStr ''correct_answer'') of
             Inr (PyStr c) \<Rightarrow> c \<in> set (map fst opts)
           | _ \<Rightarrow> False))"

text \<open>
  The sheet's entry for index \<open>i\<close> equals the \<^verbatim>\<open>correct_answer\<close> of question \<open>q\<close>:
  \<^verbatim>\<open>sheet.get(i) == q['correct_answer']\<close>.
\<close>

definition entry_equals :: "(nat \<rightharpoonup> string option) \<Rightarrow> nat \<times> pyval \<Rightarrow> bool" where
  "entry_equals sheet iq =
     (py_getitem (snd iq) (PyStr ''correct_answer'') = Inr (sheet_get sheet (fst iq)))"

text \<open>
  The invariant of the data model: a question has a text, exactly the four labels A, B,
  C and D as options, and a \<^verbatim>\<open>correct_answer\<close> among them.
\<close>

definition four_option_question :: "pyval \<Rightarrow> bool" where
  "four_option_question q =
     (case q of
        PyDict kvs \<Rightarrow>
          (case (map_of kvs ''question'', options_of q, map_of kvs ''correct_answer'') of
             (Some (PyStr text), Some opts, Some (PyStr c)) \<Rightarrow>
               set (map fst opts) = {''A'', ''B'', ''C'', ''D''} \<and> c \<in> set (map fst opts)
           | _ \<Rightarrow> False)
      | _ \<Rightarrow> False)"

definition four_option_quiz :: "pyval \<Rightarrow> bool" where
  "four_option_quiz quiz_value =
     (case quiz_questions quiz_value of None \<Rightarrow> False | Some qs \<Rightarrow> list_all four_option_question qs)"

text \<open>The number a decimal numeral denotes, to read back what \<open>str_int\<close> wrote.\<close>

definition read_nat :: "string \<Rightarrow> nat" where
  "read_nat s = foldl (\<lambda>acc c. 10 * acc + (of_char c - 48)) 0 s"

section \<open>Sample inputs\<close>

text \<open>
  A decoder given by a finite table of texts and the values \<^verbatim>\<open>json.loads\<close> returns
  for them; the other texts used below are no JSON and are rejected with
  \<^verbatim>\<open>JSONDecodeError\<close>. The environment around it: the endpoint gives the reply named;
  the radio widgets stand on their first option; the upload widget hands over a file
  whose name, in small letters, ends in a dot and one of the allowed extensions. The
  files used below are no documents, and the libraries raise on them what they raise
  on such bytes (\<^verbatim>\<open>docx2pdf\<close> as on Linux, where it is not implemented).
\<close>

definition table_loads :: "(string \<times> pyval) list \<Rightarrow> string \<Rightarrow> py_error + pyval" where
  "table_loads table text =
     (case map_of table text of None \<Rightarrow> Inl JSONDecodeError | Some v \<Rightarrow> Inr v)"

definition sample_uploader :: "string list \<Rightarrow> uploaded_file \<Rightarrow> uploaded_file option" where
  "sample_uploader types offered =
     (if list_ex (\<lambda>t. suffix (CHR ''.'' # t) (lower (file_name offered))) types
      then Some offered else None)"

definition sample_env :: "(string \<times> pyval) list \<Rightarrow> http_reply \<Rightarrow> env" where
  "sample_env table reply =
     \<lparr>json_loads = table_loads table,
      requests_post = (\<lambda>url data. reply),
      st_radio = (\<lambda>i labels. case labels of [] \<Rightarrow> None | l # ls \<Rightarrow> Some l),
      temp_prefix = ''/tmp/tmpk3v9'',
      pptx_resave = (\<lambda>bytes. Inl (LibraryError ''PackageNotFoundError'')),
      docx2pdf_convert = (\<lambda>bytes. Inl (LibraryError ''NotImplementedError'')),
      pdf_page_texts = (\<lambda>bytes. Inl (LibraryError ''PdfReadError'')),
      st_file_uploader = sample_uploader\<rparr>"

text \<open>The quiz of the specification's example, and its JSON text.\<close>

definition example_quiz_text :: string where
  \<open>example_quiz_text =
     ''{"questions":[{"question":"Q1","options":{"A":"x","B":"y","C":"z","D":"w"},"correct_answer":"B"}]}''\<close>

definition example_quiz :: pyval where
  "example_quiz =
     PyDict [(''questions'', PyList [PyDict
       [(''question'', PyStr ''Q1''),
        (''options'', PyDict [(''A'', PyStr ''x''), (''B'', PyStr ''y''), (''C'', PyStr ''z''),
           (''D'', PyStr ''w'')]),
        (''correct_answer'', PyStr ''B'')]])]"

text \<open>A quiz with two options and an answer that is none of them, and its JSON text.\<close>

definition two_option_quiz_text :: string where
  \<open>two_option_quiz_text =
     ''{"questions":[{"question":"Q1","options":{"A":"x","B":"y"},"correct_answer":"C"}]}''\<close>

definition two_option_quiz :: pyval where
  "two_option_quiz =
     PyDict [(''questions'', PyList [PyDict
       [(''question'', PyStr ''Q1''),
        (''options'', PyDict [(''A'', PyStr ''x''), (''B'', PyStr ''y'')]),
        (''correct_answer'', PyStr ''C'')]])]"



text \<open>
  The JSON text of a reply body whose \<^verbatim>\<open>response\<close> field is the string given, with
  its quotes and backslashes escaped, and the value that body decodes to.
\<close>

definition reply_body :: "string \<Rightarrow> string" where
  \<open>reply_body response =
     ''{"response": "'' @
     concat (map (\<lambda>c. if c = CHR 0x22 \<or> c = CHR 0x5C then [CHR 0x5C, c] else [c]) response) @
     ''"}''\<close>

definition reply_value :: "string \<Rightarrow> pyval" where
  "reply_value response = PyDict [(''response'', PyStr response)]"

text \<open>A session with the example quiz loaded and question 1 answered.\<close>

definition answered_session :: session where
  "answered_session =
     \<lparr>pdf_text = ''Tenses of English verbs.'', quiz = example_quiz,
      user_answers = [0 \<mapsto> Some ''B''], custom_prompt = ''present tense'',
      summary = PyStr []\<rparr>"


section \<open>Facts about the primitives\<close>

lemma options_of_getitem:
  "options_of q = Some opts \<Longrightarrow> py_getitem q (PyStr ''options'') = Inr (PyDict opts)"
  by (auto simp: options_of_def split: pyval.splits option.splits)

lemma quiz_questions_getitem:
  "quiz_questions quiz_value = Some qs \<Longrightarrow>
     py_getitem quiz_value (PyStr ''questions'') = Inr (PyList qs)"
  by (auto simp: quiz_questions_def split: pyval.splits option.splits)

lemma key_lookup:
  assumes "c \<in> set (map fst opts)"
  shows "\<exists>t. py_getitem (PyDict opts) (PyStr c) = Inr t"
proof -
  from assms have "map_of opts c \<noteq> None" by (simp add: map_of_eq_None_iff)
  then show ?thesis by auto
qed

lemma sheet_get_eq_str: "sheet_get sheet i = PyStr c \<longleftrightarrow> sheet i = Some (Some c)"
  by (auto simp: sheet_get_def split: option.splits)

lemma answer_is_option_keyD:
  assumes "answer_is_option_key q"
  obtains opts c where "options_of q = Some opts"
    and "py_getitem q (PyStr ''correct_answer'') = Inr (PyStr c)"
    and "c \<in> set (map fst opts)"
  using assms
  by (auto simp: answer_is_option_key_def split: option.splits sum.splits pyval.splits)

lemma four_option_question_key: "four_option_question q \<Longrightarrow> answer_is_option_key q"
  by (auto simp: four_option_question_def answer_is_option_key_def
      split: pyval.splits option.splits)

text \<open>A quiz that keeps the invariant of the data model is one Check Answers can score.\<close>

lemma four_option_quiz_keys:
  assumes "four_option_quiz quiz_value"
  obtains qs where "quiz_questions quiz_value = Some qs" and "list_all answer_is_option_key qs"
proof -
  from assms obtain qs where qs: "quiz_questions quiz_value = Some qs"
    and four: "list_all four_option_question qs"
    by (auto simp: four_option_quiz_def split: option.splits)
  from four have "list_all answer_is_option_key qs"
    by (auto simp: list_all_iff four_option_question_key)
  with qs show ?thesis by (rule that)
qed

lemma digit_value: "d < 10 \<Longrightarrow> of_char (digit_char d) - 48 = d"
  by (simp add: digit_char_def)

lemma read_str_nat: "read_nat (str_nat n) = n"
proof (induction n rule: str_nat.induct)
  case (1 n)
  show ?case
  proof (cases "n < 10")
    case True
    then have "str_nat n = [digit_char n]" by (subst str_nat.simps) simp
    with True show ?thesis by (simp add: read_nat_def digit_value)
  next
    case False
    then have "str_nat n = str_nat (n div 10) @ [digit_char (n mod 10)]"
      by (subst str_nat.simps) simp
    then have "read_nat (str_nat n) = read_nat (str_nat (n div 10) @ [digit_char (n mod 10)])"
      by simp
    also have "\<dots> = 10 * read_nat (str_nat (n div 10)) + (of_char (digit_char (n mod 10)) - 48)"
      by (simp add: read_nat_def)
    also have "\<dots> = 10 * (n div 10) + n mod 10"
      using "1.IH"[OF False] by (simp add: digit_value)
    also have "\<dots> = n" by simp
    finally show ?thesis .
  qed
qed

section \<open>The loop of Check Answers\<close>

text \<open>
  When every question's answer is one of its option keys, the loop runs to its end and
  adds to the score one for each index whose entry equals the correct answer.
\<close>

lemma check_loop_counts:
  "list_all answer_is_option_key qs \<Longrightarrow>
     \<exists>ev. check_loop sheet i qs score shown =
       Inr (shown @ ev, score + length (filter (entry_equals sheet) (enumerate i qs)))"
proof (induction qs arbitrary: i score shown)
  case Nil
  then show ?case by simp
next
  case (Cons q qs)
  from Cons.prems have key: "answer_is_option_key q" and rest: "list_all answer_is_option_key qs"
    by simp_all
  from key obtain opts c where opts: "options_of q = Some opts"
    and c: "py_getitem q (PyStr ''correct_answer'') = Inr (PyStr c)"
    and mem: "c \<in> set (map fst opts)"
    by (rule answer_is_option_keyD)
  from key_lookup[OF mem] obtain t where t: "py_getitem (PyDict opts) (PyStr c) = Inr t" ..
  have og: "py_getitem q (PyStr ''options'') = Inr (PyDict opts)"
    by (rule options_of_getitem[OF opts])
  show ?case
  proof (cases "sheet_get sheet i = PyStr c")
    case True
    have ee: "entry_equals sheet (i, q)" using True c by (simp add: entry_equals_def)
    from Cons.IH[OF rest, of "i + 1" "score + 1" "shown @ [Answer_correct (i + 1)]"]
    obtain ev where "check_loop sheet (i + 1) qs (score + 1) (shown @ [Answer_correct (i + 1)]) =
       Inr ((shown @ [Answer_correct (i + 1)]) @ ev,
            score + 1 + length (filter (entry_equals sheet) (enumerate (i + 1) qs)))" ..
    then show ?thesis using True c ee by simp
  next
    case False
    have ee: "\<not> entry_equals sheet (i, q)" using False c by (auto simp: entry_equals_def)
    from Cons.IH[OF rest, of "i + 1" score "shown @ [Answer_incorrect (i + 1) (PyStr c) t]"]
    obtain ev where
      "check_loop sheet (i + 1) qs score (shown @ [Answer_incorrect (i + 1) (PyStr c) t]) =
       Inr ((shown @ [Answer_incorrect (i + 1) (PyStr c) t]) @ ev,
            score + length (filter (entry_equals sheet) (enumerate (i + 1) qs)))" ..
    then show ?thesis using False c og t ee by simp
  qed
qed

text \<open>
  When some question's answer is not one of its option keys and the sheet's entry for
  it differs from the answer, the loop raises: at that question, if not before.
\<close>

lemma check_loop_fails:
  assumes "list_all has_options_mapping qs"
    and "j < length qs"
    and "\<not> answer_is_option_key (qs ! j)"
    and "py_getitem (qs ! j) (PyStr ''correct_answer'') \<noteq> Inr (sheet_get sheet (i + j))"
  shows "\<exists>e. check_loop sheet i qs score shown = Inl e"
  using assms
proof (induction qs arbitrary: i j score shown)
  case Nil
  then show ?case by simp
next
  case (Cons q qs)
  from Cons.prems(1) obtain opts where opts: "options_of q = Some opts"
    by (auto simp: has_options_mapping_def)
  have og: "py_getitem q (PyStr ''options'') = Inr (PyDict opts)"
    by (rule options_of_getitem[OF opts])
  show ?case
  proof (cases j)
    case 0
    with Cons.prems have bad: "\<not> answer_is_option_key q"
      and ne: "py_getitem q (PyStr ''correct_answer'') \<noteq> Inr (sheet_get sheet i)" by simp_all
    show ?thesis
    proof (cases "py_getitem q (PyStr ''correct_answer'')")
      case (Inl e)
      then show ?thesis by simp
    next
      case (Inr c)
      with ne have neq: "sheet_get sheet i \<noteq> c" by auto
      have "\<exists>e. py_getitem (PyDict opts) c = Inl e"
      proof (cases c)
        case (PyStr k)
        with bad opts Inr have "k \<notin> set (map fst opts)"
          by (simp add: answer_is_option_key_def)
        then have "map_of opts k = None" by (simp add: map_of_eq_None_iff)
        with PyStr show ?thesis by simp
      qed simp_all
      then obtain e where "py_getitem (PyDict opts) c = Inl e" ..
      with Inr neq og show ?thesis by simp
    qed
  next
    case (Suc j')
    with Cons.prems have p: "list_all has_options_mapping qs" "j' < length qs"
      "\<not> answer_is_option_key (qs ! j')"
      "py_getitem (qs ! j') (PyStr ''correct_answer'') \<noteq> Inr (sheet_get sheet ((i + 1) + j'))"
      by simp_all
    note IH = Cons.IH[OF p]
    show ?thesis
    proof (cases "py_getitem q (PyStr ''correct_answer'')")
      case (Inl e)
      then show ?thesis by simp
    next
      case c: (Inr c)
      show ?thesis
      proof (cases "sheet_get sheet i = c")
        case True
        with c IH[of "score + 1" "shown @ [Answer_correct (i + 1)]"] show ?thesis by simp
      next
        case False
        show ?thesis
        proof (cases "py_getitem (PyDict opts) c")
          case (Inl e)
          with c False og show ?thesis by simp
        next
          case (Inr t)
          with c False og IH[of score "shown @ [Answer_incorrect (i + 1) c t]"]
          show ?thesis by simp
        qed
      qed
    qed
  qed
qed

text \<open>Whatever a question declares, some sheet has no entry equal to it.\<close>

lemma unequal_sheet: "\<exists>sheet. \<forall>i. r \<noteq> Inr (sheet_get sheet i)"
proof (cases "r = Inr PyNone")
  case True
  then have "\<forall>i. r \<noteq> Inr (sheet_get (\<lambda>i. Some (Some [])) i)"
    by (simp add: sheet_get_def)
  then show ?thesis by blast
next
  case False
  then have "\<forall>i. r \<noteq> Inr (sheet_get Map.empty i)"
    by (simp add: sheet_get_def)
  then show ?thesis by blast
qed

section \<open>The quiz response parser\<close>

text \<open>
  Claim C1, as the code has it. \<^verbatim>\<open>generate_quiz\<close> validates nothing: a response is
  installed as the quiz exactly when it is a non-empty string that \<^verbatim>\<open>json.loads\<close>
  decodes, and the quiz is the decoded value unchanged, whatever its fields, its options
  and its \<^verbatim>\<open>correct_answer\<close>. No failure for a schema violation exists.
\<close>

theorem parse_returns_decoded_value:
  "(response \<noteq> [] \<and> json_loads env response = Inr v \<longrightarrow>
      parse_response env (PyStr response) = Inr ([], v)) \<and>
   (parse_response env r = Inr ([], v) \<longrightarrow>
      (\<exists>text. r = PyStr text \<and> text \<noteq> [] \<and> json_loads env text = Inr v))"
proof (intro conjI impI)
  assume "response \<noteq> [] \<and> json_loads env response = Inr v"
  then show "parse_response env (PyStr response) = Inr ([], v)"
    by (simp add: parse_response_def loads_value_def)
next
  assume ok: "parse_response env r = Inr ([], v)"
  show "\<exists>text. r = PyStr text \<and> text \<noteq> [] \<and> json_loads env text = Inr v"
  proof (cases "truthy r")
    case False
    with ok show ?thesis by (simp add: parse_response_def)
  next
    case True
    with ok show ?thesis
      by (cases r)
        (auto simp: parse_response_def loads_value_def split: sum.splits py_error.splits)
  qed
qed

theorem parse_returns_decoded_value_witness:
  "parse_response (sample_env [(example_quiz_text, example_quiz)] (Response 200 []))
     (PyStr example_quiz_text) = Inr ([], example_quiz)"
  using parse_returns_decoded_value
    [of example_quiz_text "sample_env [(example_quiz_text, example_quiz)] (Response 200 [])"
      example_quiz "PyStr example_quiz_text"]
  by (simp add: sample_env_def table_loads_def example_quiz_text_def)

text \<open>
  Claim C1 as stated fails: the text of a quiz with two options and the answer C, which
  is none of them, is parsed without any failure, and the quiz installed breaks the
  invariant of four options.
\<close>

theorem parse_accepts_two_option_quiz:
  "parse_response (sample_env [(two_option_quiz_text, two_option_quiz)] (Response 200 []))
     (PyStr two_option_quiz_text) = Inr ([], two_option_quiz) \<and>
   \<not> four_option_quiz two_option_quiz"
  by (simp add: parse_response_def loads_value_def sample_env_def table_loads_def
      two_option_quiz_text_def two_option_quiz_def four_option_quiz_def quiz_questions_def
      four_option_question_def options_of_def)

text \<open>
  On a text of 2000 opening brackets \<^verbatim>\<open>json.loads\<close> raises \<^verbatim>\<open>RecursionError\<close>;
  the text is used below.
\<close>

lemma deep_nesting_not_empty: "replicate 2000 CHR ''['' \<noteq> []"
  by simp

text \<open>
  Claim C5, as the code has it. A response on which \<^verbatim>\<open>json.loads\<close> raises yields no
  quiz, and nothing of it is recovered. When the exception is \<^verbatim>\<open>JSONDecodeError\<close>
  and the response is not empty, the decoding failure is reported; the empty response
  never reaches the decoder and is reported as a failed generation, the message of a
  failed inference; any other exception of the decoder leaves \<^verbatim>\<open>generate_quiz\<close>
  uncaught.
\<close>

theorem undecodable_response_yields_no_quiz:
  "(json_loads env response = Inl JSONDecodeError \<longrightarrow>
      parse_response env (PyStr response) =
        Inr ([if response = [] then Quiz_failed else Decode_failed], PyNone)) \<and>
   (json_loads env response = Inl e \<and> e \<noteq> JSONDecodeError \<and> response \<noteq> [] \<longrightarrow>
      parse_response env (PyStr response) = Inl e) \<and>
   (parse_response env (PyStr []) = Inr ([Quiz_failed], PyNone)) \<and>
   (json_loads env response = Inl e \<longrightarrow>
      (\<forall>shown q. parse_response env (PyStr response) = Inr (shown, q) \<longrightarrow> q = PyNone))"
proof (intro conjI impI allI)
  assume "json_loads env response = Inl JSONDecodeError"
  then show "parse_response env (PyStr response) =
        Inr ([if response = [] then Quiz_failed else Decode_failed], PyNone)"
    by (simp add: parse_response_def loads_value_def)
next
  assume "json_loads env response = Inl e \<and> e \<noteq> JSONDecodeError \<and> response \<noteq> []"
  then show "parse_response env (PyStr response) = Inl e"
    by (cases e) (simp_all add: parse_response_def loads_value_def)
next
  show "parse_response env (PyStr []) = Inr ([Quiz_failed], PyNone)"
    by (simp add: parse_response_def)
next
  fix shown q
  assume "json_loads env response = Inl e"
    and "parse_response env (PyStr response) = Inr (shown, q)"
  then show "q = PyNone"
    by (cases e) (auto simp: parse_response_def loads_value_def split: if_splits)
qed

theorem undecodable_response_yields_no_quiz_witness:
  "parse_response (sample_env [] (Response 200 [])) (PyStr ''Sure! Here is your quiz:'') =
     Inr ([Decode_failed], PyNone) \<and>
   parse_response
     ((sample_env [] (Response 200 []))
        \<lparr>json_loads := \<lambda>text. if text = replicate 2000 CHR ''['' then Inl RecursionError
                              else Inl JSONDecodeError\<rparr>)
     (PyStr (replicate 2000 CHR ''['')) = Inl RecursionError"
proof -
  let ?env = "sample_env [] (Response 200 [])"
  let ?deep = "?env\<lparr>json_loads := \<lambda>text. if text = replicate 2000 CHR ''['' then Inl RecursionError
                              else Inl JSONDecodeError\<rparr>"
  have "parse_response ?env (PyStr ''Sure! Here is your quiz:'') = Inr ([Decode_failed], PyNone)"
    using undecodable_response_yields_no_quiz[of ?env "''Sure! Here is your quiz:''"]
    by (simp add: sample_env_def table_loads_def)
  moreover have "parse_response ?deep (PyStr (replicate 2000 CHR ''['')) = Inl RecursionError"
    using undecodable_response_yields_no_quiz[of ?deep "replicate 2000 CHR ''[''" RecursionError]
      deep_nesting_not_empty
    by simp
  ultimately show ?thesis by simp
qed

text \<open>
  Claim C5 as stated fails on the empty string, which is not valid JSON: the failure
  reported is not the decoding failure.
\<close>

theorem empty_response_is_not_decode_failure:
  "json_loads (sample_env [] (Response 200 [])) [] = Inl JSONDecodeError \<and>
   parse_response (sample_env [] (Response 200 [])) (PyStr []) = Inr ([Quiz_failed], PyNone) \<and>
   parse_response (sample_env [] (Response 200 [])) (PyStr []) \<noteq> Inr ([Decode_failed], PyNone)"
  by (simp add: parse_response_def sample_env_def table_loads_def)

section \<open>The inference client's outcomes\<close>

text \<open>
  Claim C7, as the code has it. \<^verbatim>\<open>query_ollama\<close> returns the \<^verbatim>\<open>response\<close> field
  of the reply body, as it is, when the status is 200 and the body decodes to a value
  that has the field, and it returns a value without a message only at status 200. Every
  other status, the other 2xx among them, is reported as an API error with the status and
  the body, and a transport failure as a connection error with its detail; both return
  \<^verbatim>\<open>None\<close>.
\<close>

theorem query_ollama_outcomes:
  "(requests_post env ollama_url (ollama_data context task) = RequestException detail \<longrightarrow>
      query_ollama env context task = Inr ([Connection_error detail], PyNone)) \<and>
   (requests_post env ollama_url (ollama_data context task) = Response status text \<and>
    status \<noteq> 200 \<longrightarrow>
      query_ollama env context task = Inr ([Api_error status text], PyNone)) \<and>
   (requests_post env ollama_url (ollama_data context task) = Response 200 text \<and>
    json_loads env text = Inr body \<and> py_getitem body (PyStr ''response'') = Inr r \<longrightarrow>
      query_ollama env context task = Inr ([], r)) \<and>
   (query_ollama env context task = Inr ([], r') \<longrightarrow>
      (\<exists>text' body'. requests_post env ollama_url (ollama_data context task) = Response 200 text' \<and>
         json_loads env text' = Inr body' \<and> py_getitem body' (PyStr ''response'') = Inr r'))"
  by (auto simp: query_ollama_def split: http_reply.splits sum.splits if_splits)

theorem query_ollama_outcomes_witness:
  "query_ollama (sample_env [] (RequestException ''Connection refused'')) ''ctx'' ''task'' =
     Inr ([Connection_error ''Connection refused''], PyNone) \<and>
   query_ollama (sample_env [] (Response 500 ''model not found'')) ''ctx'' ''task'' =
     Inr ([Api_error 500 ''model not found''], PyNone) \<and>
   query_ollama (sample_env [(reply_body ''Hello'', reply_value ''Hello'')]
       (Response 200 (reply_body ''Hello''))) ''ctx'' ''task'' = Inr ([], PyStr ''Hello'')"
proof -
  let ?down = "sample_env [] (RequestException ''Connection refused'')"
  let ?err = "sample_env [] (Response 500 ''model not found'')"
  let ?ok = "sample_env [(reply_body ''Hello'', reply_value ''Hello'')]
       (Response 200 (reply_body ''Hello''))"
  have "query_ollama ?down ''ctx'' ''task'' =
      Inr ([Connection_error ''Connection refused''], PyNone)"
    using query_ollama_outcomes[of ?down "''ctx''" "''task''" "''Connection refused''"]
    by (simp add: sample_env_def)
  moreover have "query_ollama ?err ''ctx'' ''task'' =
      Inr ([Api_error 500 ''model not found''], PyNone)"
    using query_ollama_outcomes[of ?err "''ctx''" "''task''" _ 500 "''model not found''"]
    by (simp add: sample_env_def)
  moreover have "query_ollama ?ok ''ctx'' ''task'' = Inr ([], PyStr ''Hello'')"
    using query_ollama_outcomes[of ?ok "''ctx''" "''task''" _ _ "reply_body ''Hello''"
        "reply_value ''Hello''" "PyStr ''Hello''"]
    by (simp add: sample_env_def table_loads_def reply_value_def)
  ultimately show ?thesis by simp
qed

text \<open>
  Claim C7 as stated fails at a success status other than 200: a reply with status 201
  and a body whose \<^verbatim>\<open>response\<close> field is \<^verbatim>\<open>Hello\<close> is reported as an API
  error, and the text is not returned.
\<close>

theorem status_201_is_api_error:
  "query_ollama (sample_env [(reply_body ''Hello'', reply_value ''Hello'')]
       (Response 201 (reply_body ''Hello''))) ''ctx'' ''task'' =
     Inr ([Api_error 201 (reply_body ''Hello'')], PyNone)"
  by (simp add: query_ollama_def sample_env_def)

section \<open>The quiz prompt\<close>

text \<open>
  Claim C8. For every context and every number \<open>n\<close>, the task \<^verbatim>\<open>generate_quiz\<close>
  builds starts by asking for a quiz with \<open>n\<close> multiple-choice questions, \<open>n\<close> written
  in decimal (the numeral reads back as \<open>n\<close>, and is \<^verbatim>\<open>5\<close> for five questions); it
  asks for 4 options (A, B, C, D) for each question with the correct answer indicated,
  and forbids meta-level questions. The task is part of the prompt posted to the
  endpoint.
\<close>

theorem quiz_task_requests_n_questions:
  "prefix (''Generate a quiz with '' @ str_int n @ '' multiple-choice questions '')
     (quiz_task context n) \<and>
   read_nat (str_int (int k)) = k \<and>
   prefix ''Generate a quiz with 5 multiple-choice questions '' (quiz_task context 5) \<and>
   sublist ''For each question, provide 4 options (A, B, C, D) and indicate the correct answer.''
     (quiz_task context n) \<and>
   sublist ''Do not include meta-level questions like 'What is the purpose of this quiz?'\<newline>''
     (quiz_task context n) \<and>
   sublist (quiz_task context n) (prompt (ollama_data context (quiz_task context n)))"
proof (intro conjI)
  show "prefix (''Generate a quiz with '' @ str_int n @ '' multiple-choice questions '')
     (quiz_task context n)"
    unfolding quiz_task_def by (simp add: prefix_def)
  show "read_nat (str_int (int k)) = k"
    by (simp add: str_int_def read_str_nat)
  have "str_int 5 = ''5''" by code_simp
  then show "prefix ''Generate a quiz with 5 multiple-choice questions '' (quiz_task context 5)"
    unfolding quiz_task_def by (simp add: prefix_def)
  show "sublist ''For each question, provide 4 options (A, B, C, D) and indicate the correct answer.''
     (quiz_task context n)"
    unfolding quiz_task_def sublist_def
    by (rule exI[of _ "''Generate a quiz with '' @ str_int n @
          '' multiple-choice questions based on the given context: '' @ [CHR 0x22] @ context @
          [CHR 0x22] @ ''. \<newline>    ''"], rule exI) simp
  show "sublist ''Do not include meta-level questions like 'What is the purpose of this quiz?'\<newline>''
     (quiz_task context n)"
    unfolding quiz_task_def sublist_def
    by (rule exI[of _ "''Generate a quiz with '' @ str_int n @
          '' multiple-choice questions based on the given context: '' @ [CHR 0x22] @ context @
          [CHR 0x22] @ ''. \<newline>'' @
          ''    For each question, provide 4 options (A, B, C, D) and indicate the correct answer.\<newline>'' @
          ''    Ensure the questions are relevant to the topic: '' @ context @
          ''. Also if the questions is for learning a language or grammar \<newline>'' @
          ''    like 'take a quiz on present tense' or any other tense I expect you to prepare questions and options like this\<newline>'' @
          ''    ''"], rule exI) simp
  show "sublist (quiz_task context n) (prompt (ollama_data context (quiz_task context n)))"
    unfolding sublist_def ollama_data_def
    by (rule exI[of _ "''Context: '' @ context @ ''\<newline>\<newline>Task: ''"], rule exI) simp
qed

section \<open>The Generate handler\<close>

text \<open>What the sample environment answers, for the examples below.\<close>

lemma sample_post [simp]: "requests_post (sample_env table reply) url data = reply"
  by (simp add: sample_env_def)

lemma sample_loads [simp]:
  "json_loads (sample_env table reply) text =
     (case map_of table text of None \<Rightarrow> Inl JSONDecodeError | Some v \<Rightarrow> Inr v)"
  by (simp add: sample_env_def table_loads_def)



lemma answered_guard:
  "pdf_text answered_session \<noteq> [] \<or> custom_prompt answered_session \<noteq> []"
  by (simp add: answered_session_def)

lemma query_unreachable:
  "query_ollama (sample_env [] (RequestException ''Connection refused'')) context task =
     Inr ([Connection_error ''Connection refused''], PyNone)"
  by (simp add: query_ollama_def)

text \<open>
  The two failures the inference client reports: it returns \<^verbatim>\<open>None\<close>, which
  \<^verbatim>\<open>generate_quiz\<close> takes for a failed generation.
\<close>

lemma query_ollama_reported_failure:
  "requests_post env ollama_url (ollama_data context task) = RequestException detail \<Longrightarrow>
     query_ollama env context task = Inr ([Connection_error detail], PyNone)"
  "requests_post env ollama_url (ollama_data context task) = Response status body \<Longrightarrow>
     status \<noteq> 200 \<Longrightarrow>
     query_ollama env context task = Inr ([Api_error status body], PyNone)"
  by (simp_all add: query_ollama_def)

lemma query_prose:
  "query_ollama
     (sample_env [(reply_body ''Sure! Here is your quiz:'', reply_value ''Sure! Here is your quiz:'')]
        (Response 200 (reply_body ''Sure! Here is your quiz:''))) context task =
   Inr ([], PyStr ''Sure! Here is your quiz:'')"
  by (simp add: query_ollama_def reply_value_def)

lemma prose_rejected:
  "json_loads
     (sample_env [(reply_body ''Sure! Here is your quiz:'', reply_value ''Sure! Here is your quiz:'')]
        (Response 200 (reply_body ''Sure! Here is your quiz:''))) ''Sure! Here is your quiz:'' =
   Inl JSONDecodeError"
  by (simp add: reply_body_def)

text \<open>
  An exception raised during the generation leaves the handler before line 151: the
  session is the one the click found.
\<close>

lemma generate_raise_keeps_session:
  "generate_clicked env content_type n s = Inl e \<Longrightarrow>
     session_after s (generate_clicked env content_type n s) = s"
  by (simp add: session_after_def)

text \<open>
  A click on Generate for a quiz that returns leaves the answer sheet empty, in the
  same step that installs the quiz and before the questions are drawn, and nothing of
  the sheet the click found enters the result.
\<close>

lemma generate_resets_answer_sheet:
  assumes "pdf_text s \<noteq> [] \<or> custom_prompt s \<noteq> []"
    and "generate_clicked env Quiz n s = Inr (shown, s')"
  shows "user_answers s' = Map.empty \<and>
         (\<forall>old. generate_clicked env Quiz n (s\<lparr>user_answers := old\<rparr>) = Inr (shown, s'))"
proof -
  from assms obtain q where q: "generate_quiz env (active_context s) n = Inr (shown, q)"
    and s': "s' = s\<lparr>quiz := q, user_answers := Map.empty\<rparr>"
    by (auto simp: generate_clicked_def split: sum.splits prod.splits)
  have "generate_clicked env Quiz n (s\<lparr>user_answers := old\<rparr>) = Inr (shown, s')" for old
    using assms(1) q s' by (auto simp: generate_clicked_def active_context_def)
  with s' show ?thesis by simp
qed



text \<open>
  Claim C4. On a click on Generate, when the custom prompt is not empty the context
  given to the generators, from which they build the prompt, is the custom prompt,
  whatever the document text is; the document text is the context only when the custom
  prompt is empty.
\<close>

theorem custom_prompt_is_context:
  "(custom_prompt s \<noteq> [] \<longrightarrow>
      active_context s = custom_prompt s \<and>
      generate_clicked env Quiz n s =
        (case generate_quiz env (custom_prompt s) n of
           Inl e \<Rightarrow> Inl e
         | Inr (shown, q) \<Rightarrow> Inr (shown, s\<lparr>quiz := q, user_answers := Map.empty\<rparr>)) \<and>
      generate_clicked env Summary n s =
        (case summarize_content env (custom_prompt s) of
           Inl e \<Rightarrow> Inl e
         | Inr (shown, r) \<Rightarrow> Inr (shown, s\<lparr>summary := r\<rparr>))) \<and>
   (custom_prompt s = [] \<longrightarrow> active_context s = pdf_text s)"
  by (simp add: active_context_def generate_clicked_def)

theorem custom_prompt_is_context_witness:
  "active_context answered_session = ''present tense'' \<and>
   active_context (answered_session\<lparr>custom_prompt := []\<rparr>) = ''Tenses of English verbs.''"
  using custom_prompt_is_context[of answered_session]
    custom_prompt_is_context[of "answered_session\<lparr>custom_prompt := []\<rparr>"]
  by (simp add: answered_session_def)

text \<open>
  Claim C9, as the code has it. On a click on Generate for a quiz, when the inference
  client returns nothing (it has reported a connection or API error, or the response is
  empty) or returns a string on which \<^verbatim>\<open>json.loads\<close> raises \<^verbatim>\<open>JSONDecodeError\<close>,
  the failure is reported and the session is changed all the same: the quiz is set to
  \<^verbatim>\<open>None\<close> and the answer sheet to empty, so the quiz loaded before and its answers
  are lost.
\<close>

theorem failed_generation_clears_quiz:
  assumes "pdf_text s \<noteq> [] \<or> custom_prompt s \<noteq> []"
    and "query_ollama env (active_context s) (quiz_task (active_context s) n) =
           Inr (shown, response)"
    and "\<not> truthy response \<or>
         (\<exists>text. response = PyStr text \<and> json_loads env text = Inl JSONDecodeError)"
  shows "generate_clicked env Quiz n s =
           Inr (shown @ [if truthy response then Decode_failed else Quiz_failed],
                s\<lparr>quiz := PyNone, user_answers := Map.empty\<rparr>)"
proof (cases "truthy response")
  case False
  with assms(1,2) show ?thesis
    by (simp add: generate_clicked_def generate_quiz_def parse_response_def)
next
  case True
  with assms(3) obtain t where "response = PyStr t" "json_loads env t = Inl JSONDecodeError"
    by auto
  with True assms(1,2) show ?thesis
    by (simp add: generate_clicked_def generate_quiz_def parse_response_def loads_value_def)
qed

theorem failed_generation_clears_quiz_witness:
  "quiz answered_session = example_quiz \<and>
   user_answers answered_session 0 = Some (Some ''B'') \<and>
   generate_clicked (sample_env [] (RequestException ''Connection refused''))
     Quiz 5 answered_session =
   Inr ([Connection_error ''Connection refused'', Quiz_failed],
        answered_session\<lparr>quiz := PyNone, user_answers := Map.empty\<rparr>) \<and>
   generate_clicked
     (sample_env [(reply_body ''Sure! Here is your quiz:'', reply_value ''Sure! Here is your quiz:'')]
        (Response 200 (reply_body ''Sure! Here is your quiz:'')))
     Quiz 5 answered_session =
   Inr ([Decode_failed], answered_session\<lparr>quiz := PyNone, user_answers := Map.empty\<rparr>)"
  using failed_generation_clears_quiz[OF answered_guard query_unreachable, of 5]
    failed_generation_clears_quiz[OF answered_guard query_prose, of 5] prose_rejected
  by (simp add: answered_session_def)

text \<open>
  Claim C9 as stated fails when the failure is an exception that nothing catches: a
  reply with status 200 whose body is a page of HTML makes \<^verbatim>\<open>json.loads\<close> raise in
  \<^verbatim>\<open>query_ollama\<close>, the handler is left before lines 151 and 152, and the quiz
  loaded before and its answer are still there.
\<close>

theorem undecodable_reply_keeps_quiz:
  "generate_clicked (sample_env [] (Response 200 ''<html>busy</html>'')) Quiz 5 answered_session =
     Inl JSONDecodeError \<and>
   session_after answered_session
     (generate_clicked (sample_env [] (Response 200 ''<html>busy</html>'')) Quiz 5
        answered_session) = answered_session \<and>
   quiz answered_session = example_quiz \<and>
   user_answers answered_session 0 = Some (Some ''B'')"
proof -
  have "generate_clicked (sample_env [] (Response 200 ''<html>busy</html>'')) Quiz 5
      answered_session = Inl JSONDecodeError"
    using answered_guard
    by (simp add: generate_clicked_def generate_quiz_def query_ollama_def)
  then show ?thesis by (simp add: session_after_def answered_session_def)
qed

section \<open>Check Answers\<close>

lemma example_questions:
  "quiz_questions example_quiz = Some [PyDict
       [(''question'', PyStr ''Q1''),
        (''options'', PyDict [(''A'', PyStr ''x''), (''B'', PyStr ''y''), (''C'', PyStr ''z''),
           (''D'', PyStr ''w'')]),
        (''correct_answer'', PyStr ''B'')]]"
  by (simp add: quiz_questions_def example_quiz_def)

lemma example_keys:
  "list_all answer_is_option_key [PyDict
       [(''question'', PyStr ''Q1''),
        (''options'', PyDict [(''A'', PyStr ''x''), (''B'', PyStr ''y''), (''C'', PyStr ''z''),
           (''D'', PyStr ''w'')]),
        (''correct_answer'', PyStr ''B'')]]"
  by (simp add: answer_is_option_key_def options_of_def)

lemma example_options:
  "list_all has_options_mapping [PyDict
       [(''question'', PyStr ''Q1''),
        (''options'', PyDict [(''A'', PyStr ''x''), (''B'', PyStr ''y''), (''C'', PyStr ''z''),
           (''D'', PyStr ''w'')]),
        (''correct_answer'', PyStr ''B'')]]"
  by (simp add: has_options_mapping_def options_of_def)

text \<open>
  Claim C2. For a quiz whose questions each have their \<^verbatim>\<open>correct_answer\<close> among the
  keys of their options (as every Quiz of the data model has) and for every answer
  sheet, Check Answers returns, without raising, the total \<^verbatim>\<open>len(questions)\<close> and a
  count of correct answers that is the number of indices \<open>i\<close> below it whose sheet entry
  equals the \<^verbatim>\<open>correct_answer\<close> of question \<open>i\<close>. The count is at most the total, and
  an index with no sheet entry is never counted.
\<close>

theorem score_counts_matching_entries:
  assumes "quiz_questions quiz_value = Some qs"
    and "list_all answer_is_option_key qs"
  shows "\<exists>shown correct_count total_count.
           check_answers quiz_value sheet = Inr (shown, correct_count, total_count) \<and>
           total_count = length qs \<and>
           correct_count = length (filter (entry_equals sheet) (enumerate 0 qs)) \<and>
           0 \<le> correct_count \<and> correct_count \<le> total_count \<and>
           (\<forall>i < length qs. sheet i = None \<longrightarrow> \<not> entry_equals sheet (i, qs ! i))"
proof -
  have missing: "\<not> entry_equals sheet (i, qs ! i)" if "i < length qs" and "sheet i = None" for i
  proof -
    from that(1) assms(2) have "answer_is_option_key (qs ! i)" by (simp add: list_all_length)
    then obtain c where "py_getitem (qs ! i) (PyStr ''correct_answer'') = Inr (PyStr c)"
      by (auto elim: answer_is_option_keyD)
    then show ?thesis using that(2) by (simp add: entry_equals_def sheet_get_def)
  qed
  from check_loop_counts[OF assms(2), of sheet 0 0 "[]"]
  obtain ev where ev: "check_loop sheet 0 qs 0 [] =
       Inr (ev, length (filter (entry_equals sheet) (enumerate 0 qs)))" by auto
  have "length (filter (entry_equals sheet) (enumerate 0 qs)) \<le> length (enumerate 0 qs)"
    by (rule length_filter_le)
  then have le: "length (filter (entry_equals sheet) (enumerate 0 qs)) \<le> length qs" by simp
  show ?thesis
    using quiz_questions_getitem[OF assms(1)] ev le missing by (simp add: check_answers_def)
qed

theorem score_counts_matching_entries_witness:
  "(\<exists>shown. check_answers example_quiz [0 \<mapsto> Some ''B''] = Inr (shown, 1, 1)) \<and>
   (\<exists>shown. check_answers example_quiz [0 \<mapsto> Some ''A''] = Inr (shown, 0, 1)) \<and>
   (\<exists>shown. check_answers example_quiz Map.empty = Inr (shown, 0, 1))"
  using score_counts_matching_entries[OF example_questions example_keys, of "[0 \<mapsto> Some ''B'']"]
    score_counts_matching_entries[OF example_questions example_keys, of "[0 \<mapsto> Some ''A'']"]
    score_counts_matching_entries[OF example_questions example_keys, of Map.empty]
  by (simp add: entry_equals_def sheet_get_def)

text \<open>
  Claim C10. For a quiz whose questions each have an options mapping, Check Answers
  returns for every answer sheet exactly when every question's \<^verbatim>\<open>correct_answer\<close> is
  a key of its options: the loop looks \<^verbatim>\<open>options[correct_answer]\<close> up for each
  question whose entry differs from the answer, a missing entry included, and raises
  when the lookup is not defined.
\<close>

theorem check_answers_total_iff:
  assumes "quiz_questions quiz_value = Some qs"
    and "list_all has_options_mapping qs"
  shows "(\<forall>sheet. \<exists>r. check_answers quiz_value sheet = Inr r) \<longleftrightarrow>
         list_all answer_is_option_key qs"
proof
  assume returns: "\<forall>sheet. \<exists>r. check_answers quiz_value sheet = Inr r"
  show "list_all answer_is_option_key qs"
  proof (rule ccontr)
    assume "\<not> list_all answer_is_option_key qs"
    then obtain j where j: "j < length qs" "\<not> answer_is_option_key (qs ! j)"
      by (auto simp: list_all_length)
    from unequal_sheet obtain sheet where
      "\<forall>i. py_getitem (qs ! j) (PyStr ''correct_answer'') \<noteq> Inr (sheet_get sheet i)" ..
    then have "py_getitem (qs ! j) (PyStr ''correct_answer'') \<noteq> Inr (sheet_get sheet (0 + j))" ..
    from check_loop_fails[OF assms(2) j this, of 0 "[]"]
    obtain e where "check_loop sheet 0 qs 0 [] = Inl e" ..
    then have "check_answers quiz_value sheet = Inl e"
      using quiz_questions_getitem[OF assms(1)] by (simp add: check_answers_def)
    with returns show False by (metis Inl_Inr_False)
  qed
next
  assume keys: "list_all answer_is_option_key qs"
  show "\<forall>sheet. \<exists>r. check_answers quiz_value sheet = Inr r"
  proof
    fix sheet
    from check_loop_counts[OF keys, of sheet 0 0 "[]"]
    obtain ev k where "check_loop sheet 0 qs 0 [] = Inr (ev, k)" by auto
    then show "\<exists>r. check_answers quiz_value sheet = Inr r"
      using quiz_questions_getitem[OF assms(1)] by (simp add: check_answers_def)
  qed
qed

theorem check_answers_total_iff_witness:
  "(\<forall>sheet. \<exists>r. check_answers example_quiz sheet = Inr r) \<and>
   check_answers two_option_quiz Map.empty = Inl KeyError"
proof -
  have "\<forall>sheet. \<exists>r. check_answers example_quiz sheet = Inr r"
    using check_answers_total_iff[OF example_questions example_options] example_keys by simp
  moreover have "check_answers two_option_quiz Map.empty = Inl KeyError"
    by (simp add: check_answers_def two_option_quiz_def sheet_get_def)
  ultimately show ?thesis by simp
qed

section \<open>Text extraction: the formats\<close>














section \<open>The answers a run of the script scores\<close>

text \<open>
  The loop of Check Answers reads the sheet only at the indices of the questions, and
  the drawing of the quiz writes every one of them in the same run, whatever the sheet
  held: what a click on Check Answers shows does not depend on the sheet the run found.
\<close>

lemma check_loop_reads_indices:
  "(\<forall>j < length qs. a (i + j) = b (i + j)) \<Longrightarrow>
     check_loop a i qs score shown = check_loop b i qs score shown"
proof (induction qs arbitrary: i score shown)
  case Nil
  then show ?case by simp
next
  case (Cons q qs)
  from Cons.prems have "a (i + 0) = b (i + 0)" by blast
  then have here: "sheet_get a i = sheet_get b i" by (simp add: sheet_get_def)
  have "a (Suc i + j) = b (Suc i + j)" if "j < length qs" for j
    using Cons.prems[rule_format, of "Suc j"] that by simp
  then have rest: "check_loop a (Suc i) qs sc sh = check_loop b (Suc i) qs sc sh" for sc sh
    using Cons.IH[of "Suc i"] by blast
  show ?case
    by (simp add: here rest split: sum.splits)
qed

lemma render_loop_writes_indices:
  "render_loop env i qs a shown = Inr (sh, a') \<Longrightarrow>
     \<exists>b'. render_loop env i qs b shown = Inr (sh, b') \<and>
          (\<forall>j < length qs. b' (i + j) = a' (i + j))"
proof (induction qs arbitrary: i a b shown)
  case Nil
  then show ?case by simp
next
  case (Cons q qs)
  from Cons.prems obtain t opts labels where
    t: "py_getitem q (PyStr ''question'') = Inr t"
    and opts: "py_getitem q (PyStr ''options'') = Inr opts"
    and labels: "py_keys opts = Inr labels"
    and rest: "render_loop env (i + 1) qs (a(i \<mapsto> st_radio env i labels))
                 (shown @ [Question_shown (i + 1) t]) = Inr (sh, a')"
    by (auto split: sum.splits)
  from Cons.IH[OF rest, of "b(i \<mapsto> st_radio env i labels)"]
  obtain b' where b': "render_loop env (i + 1) qs (b(i \<mapsto> st_radio env i labels))
                 (shown @ [Question_shown (i + 1) t]) = Inr (sh, b')"
    and same: "\<forall>j < length qs. b' ((i + 1) + j) = a' ((i + 1) + j)"
    by blast
  have keep: "render_loop env k qs' c sh0 = Inr (sh1, c') \<Longrightarrow> m < k \<Longrightarrow> c' m = c m"
    for k qs' c sh0 sh1 c' m
    by (induction qs' arbitrary: k c sh0) (auto split: sum.splits)
  have "b' i = Some (st_radio env i labels)" using keep[OF b', of i] by simp
  moreover have "a' i = Some (st_radio env i labels)" using keep[OF rest, of i] by simp
  ultimately have first: "b' i = a' i" by simp
  have "b' (i + j) = a' (i + j)" if "j < length (q # qs)" for j
  proof (cases j)
    case 0
    with first show ?thesis by simp
  next
    case (Suc j')
    with that same show ?thesis by simp
  qed
  with t opts labels b' show ?case by simp
qed

lemma render_loop_raises_alike:
  "render_loop env i qs a shown = Inl e \<Longrightarrow> render_loop env i qs b shown = Inl e"
  by (induction qs arbitrary: i a b shown) (auto split: sum.splits)

lemma check_clicked_ignores_old_sheet:
  "map_sum id fst (check_clicked env (s\<lparr>user_answers := old\<rparr>)) =
   map_sum id fst (check_clicked env s)"
proof (cases "(pdf_text s \<noteq> [] \<or> custom_prompt s \<noteq> []) \<and> truthy (quiz s)")
  case False
  then show ?thesis by (auto simp: check_clicked_def)
next
  case True
  show ?thesis
  proof (cases "py_getitem (quiz s) (PyStr ''questions'')")
    case (Inl e)
    with True show ?thesis by (simp add: check_clicked_def render_quiz_def)
  next
    case questions: (Inr questions)
    show ?thesis
    proof (cases "py_iter questions")
      case (Inl e)
      with True questions show ?thesis by (simp add: check_clicked_def render_quiz_def)
    next
      case qs: (Inr qs)
      show ?thesis
      proof (cases "render_loop env 0 qs (user_answers s) []")
        case (Inl e)
        from render_loop_raises_alike[OF Inl, of old] Inl True questions qs
        show ?thesis by (simp add: check_clicked_def render_quiz_def)
      next
        case (Inr r)
        then obtain sh a' where a': "render_loop env 0 qs (user_answers s) [] = Inr (sh, a')"
          by (cases r) simp
        from render_loop_writes_indices[OF a', of old]
        obtain b' where b': "render_loop env 0 qs old [] = Inr (sh, b')"
          and same: "\<forall>j < length qs. b' (0 + j) = a' (0 + j)" by blast
        have loop: "check_loop b' 0 qs 0 [] = check_loop a' 0 qs 0 []"
          by (rule check_loop_reads_indices[OF same])
        from True questions qs a' b' loop show ?thesis
          by (simp add: check_clicked_def render_quiz_def check_answers_def
              split: sum.splits prod.splits)
      qed
    qed
  qed
qed

end
